theory Spec2Isabelle
  imports Main "HOL-Library.Word" "HOL-Library.Multiset" "HOL-Library.Sublist"
begin

unbundle bit_operations_syntax

section \<open>The router (libs/freelan/src/router.cpp)\<close>

subsection \<open>Data model\<close>

text \<open>
  A frame is a byte buffer (\<open>boost::asio::const_buffer\<close>). The destination extracted from
  it is a \<open>boost::asio::ip::address_v4\<close> or \<open>address_v6\<close>; the two instances of the
  template \<open>get_target_for<AddressType>\<close> are the two constructors of \<open>ip_address\<close>.
\<close>

type_synonym buffer = "8 word list"
type_synonym ipv4_address = "32 word"
type_synonym ipv6_address = "128 word"

datatype ip_address = V4 ipv4_address | V6 ipv6_address

text \<open>
  A port, as far as the router reads it: \<open>group()\<close> and \<open>local_routes()\<close>. The type of a
  port index \<open>'i\<close>, of a group \<open>'g\<close> and of a network prefix \<open>'n\<close> are declared in
  router.hpp, which is not among the sources; they stay type parameters. The write
  function of a port is not a field here: a call of it is recorded as an event (see
  \<open>async_write\<close>).
\<close>

record ('g, 'n) port_type =
  port_group :: 'g
  local_routes :: "'n list"

record configuration =
  client_routing_enabled :: bool

text \<open>
  Modelled from the spec: the frame filters \<open>m_ipv4_filter\<close> and \<open>m_ipv6_filter\<close>
  (asiotap, not among the sources). The router reads three members:
  \<open>parse\<close>, \<open>get_last_helper\<close> and \<open>clear_last_helper\<close>. The helper is kept as the
  destination address it yields, the only thing the router asks of it. A filter is
  given by its \<open>try_parse(buffer) -> Option<Address>\<close>, and \<open>parse\<close> leaves the outcome
  of \<open>try_parse\<close> in \<open>last_helper\<close>.
\<close>

record 'a frame_filter =
  last_helper :: "'a option"

definition filter_parse :: "(buffer \<Rightarrow> 'a option) \<Rightarrow> 'a frame_filter \<Rightarrow> buffer \<Rightarrow> 'a frame_filter" where
  "filter_parse try_parse f data = f\<lparr>last_helper := try_parse data\<rparr>"

definition clear_last_helper :: "'a frame_filter \<Rightarrow> 'a frame_filter" where
  "clear_last_helper f = f\<lparr>last_helper := None\<rparr>"

text \<open>
  The router's members. \<open>m_ports\<close> is the \<open>port_list_type\<close> map, kept as the list of its
  entries in iteration order; \<open>m_routes\<close> is the optional route cache, \<open>None\<close> when it was
  invalidated, and a table is the list of its entries in iteration order. The keys of a
  map are unique; no result below depends on it, a lookup takes the first entry of a key.
\<close>

record ('i, 'g, 'n) router =
  m_ports :: "('i \<times> ('g, 'n) port_type) list"
  m_routes :: "('n \<times> 'i) list option"
  m_configuration :: configuration
  m_ipv4_filter :: "ipv4_address frame_filter"
  m_ipv6_filter :: "ipv6_address frame_filter"

text \<open>
  A \<open>port_list_type::const_iterator\<close> is \<open>Some\<close> entry of the map or \<open>None\<close> for
  \<open>m_ports.end()\<close>, the "no route" answer. Reading through the end iterator is undefined
  behaviour in C++: the model makes it an error value.
\<close>

datatype error = End_iterator_dereferenced

type_synonym ('i, 'g, 'n) port_iterator = "('i \<times> ('g, 'n) port_type) option"

definition ports_find :: "('i \<times> 'p) list \<Rightarrow> 'i \<Rightarrow> ('i \<times> 'p) option" where
  "ports_find ports index = find (\<lambda>entry. fst entry = index) ports"

subsection \<open>routes()\<close>

text \<open>
  Modelled from the spec: \<open>routes_port_type\<close> (router.hpp, not among the sources) is an
  ordered multimap from network prefix to port index. \<open>insert\<close> keeps every pair and
  places the new one behind the entries whose key is not greater, under the container's
  comparison \<open>key_comp\<close>, a parameter.
\<close>

fun multimap_insert :: "('n \<Rightarrow> 'n \<Rightarrow> bool) \<Rightarrow> 'n \<times> 'i \<Rightarrow> ('n \<times> 'i) list \<Rightarrow> ('n \<times> 'i) list" where
  "multimap_insert key_comp kv [] = [kv]"
| "multimap_insert key_comp kv (e # es) =
     (if key_comp (fst kv) (fst e) then kv # e # es else e # multimap_insert key_comp kv es)"

text \<open>The two nested loops of \<open>routes()\<close>: over the ports, and over a port's local routes.\<close>

definition insert_local_routes ::
  "('n \<Rightarrow> 'n \<Rightarrow> bool) \<Rightarrow> ('n \<times> 'i) list \<Rightarrow> 'i \<times> ('g, 'n) port_type \<Rightarrow> ('n \<times> 'i) list" where
  "insert_local_routes key_comp table port =
     foldl (\<lambda>t route. multimap_insert key_comp (route, fst port) t) table (local_routes (snd port))"

definition compile_routes ::
  "('n \<Rightarrow> 'n \<Rightarrow> bool) \<Rightarrow> ('i \<times> ('g, 'n) port_type) list \<Rightarrow> ('n \<times> 'i) list" where
  "compile_routes key_comp ports = foldl (insert_local_routes key_comp) [] ports"

text \<open>
  \<open>routes()\<close> is const and fills the mutable cache: it returns the table and the router
  with the cache set.
\<close>

definition routes ::
  "('n \<Rightarrow> 'n \<Rightarrow> bool) \<Rightarrow> ('i, 'g, 'n) router \<Rightarrow> ('n \<times> 'i) list \<times> ('i, 'g, 'n) router" where
  "routes key_comp r =
     (case m_routes r of
        None \<Rightarrow> (let table = compile_routes key_comp (m_ports r) in (table, r\<lparr>m_routes := Some table\<rparr>))
      | Some table \<Rightarrow> (table, r))"

subsection \<open>The selector get\_target\_for\<close>

text \<open>
  The loop of \<open>get_target_for<AddressType>\<close> over the route table. \<open>has_address\<close>
  (asiotap, not among the sources) is a parameter. The candidate is looked up
  with \<open>m_ports.find\<close> and the result is not compared with \<open>m_ports.end()\<close>: when client
  routing is enabled the iterator is returned as it is, by the short circuit of \<open>||\<close>;
  otherwise \<open>port_entry->second.group()\<close> reads through it.
\<close>

fun get_target_for_loop ::
  "('n \<Rightarrow> 'a \<Rightarrow> bool) \<Rightarrow> ('i \<times> ('g, 'n) port_type) list \<Rightarrow> bool \<Rightarrow> ('g, 'n) port_type \<Rightarrow> 'a \<Rightarrow>
     ('n \<times> 'i) list \<Rightarrow> error + ('i, 'g, 'n) port_iterator" where
  "get_target_for_loop has_address ports enabled source dest_addr [] = Inr None"
| "get_target_for_loop has_address ports enabled source dest_addr (route_port # rest) =
     (if has_address (fst route_port) dest_addr then
        (let port_entry = ports_find ports (snd route_port) in
         if enabled then Inr port_entry
         else (case port_entry of
                 None \<Rightarrow> Inl End_iterator_dereferenced
               | Some entry \<Rightarrow>
                   if port_group source \<noteq> port_group (snd entry) then Inr port_entry
                   else get_target_for_loop has_address ports enabled source dest_addr rest))
      else get_target_for_loop has_address ports enabled source dest_addr rest)"

definition get_target_for_address ::
  "('n \<Rightarrow> 'a \<Rightarrow> bool) \<Rightarrow> ('n \<Rightarrow> 'n \<Rightarrow> bool) \<Rightarrow> ('i, 'g, 'n) router \<Rightarrow> 'i \<Rightarrow> 'a \<Rightarrow>
     (error + ('i, 'g, 'n) port_iterator) \<times> ('i, 'g, 'n) router" where
  "get_target_for_address has_address key_comp r index dest_addr =
     (case ports_find (m_ports r) index of
        Some source_port_entry \<Rightarrow>
          (let (routes_ports, r') = routes key_comp r in
           (get_target_for_loop has_address (m_ports r)
              (client_routing_enabled (m_configuration r)) (snd source_port_entry) dest_addr routes_ports,
            r'))
      | None \<Rightarrow> (Inr None, r))"

text \<open>
  The selector on a frame: IPv4 first, then IPv6. \<open>parse4\<close> and \<open>parse6\<close> are the
  \<open>try_parse\<close> of the two filters.
\<close>

definition get_target_for ::
  "(buffer \<Rightarrow> ipv4_address option) \<Rightarrow> (buffer \<Rightarrow> ipv6_address option) \<Rightarrow>
   ('n \<Rightarrow> ip_address \<Rightarrow> bool) \<Rightarrow> ('n \<Rightarrow> 'n \<Rightarrow> bool) \<Rightarrow> ('i, 'g, 'n) router \<Rightarrow> 'i \<Rightarrow> buffer \<Rightarrow>
     (error + ('i, 'g, 'n) port_iterator) \<times> ('i, 'g, 'n) router" where
  "get_target_for parse4 parse6 has_address key_comp r index data =
     (let r1 = r\<lparr>m_ipv4_filter := filter_parse parse4 (m_ipv4_filter r) data\<rparr> in
      case last_helper (m_ipv4_filter r1) of
        Some destination \<Rightarrow>
          get_target_for_address has_address key_comp
            (r1\<lparr>m_ipv4_filter := clear_last_helper (m_ipv4_filter r1)\<rparr>) index (V4 destination)
      | None \<Rightarrow>
          (let r2 = r1\<lparr>m_ipv6_filter := filter_parse parse6 (m_ipv6_filter r1) data\<rparr> in
           case last_helper (m_ipv6_filter r2) of
             Some destination \<Rightarrow>
               get_target_for_address has_address key_comp
                 (r2\<lparr>m_ipv6_filter := clear_last_helper (m_ipv6_filter r2)\<rparr>) index (V6 destination)
           | None \<Rightarrow> (Inr None, r2)))"

subsection \<open>async\_write\<close>

text \<open>
  The router's only effect besides its own members is the call of the chosen port's
  \<open>async_write(data, handler)\<close>. The calls made are returned as a list of events, each
  with the index of the port called. The trace that \<open>FREELAN_DEBUG\<close> adds writes to
  \<open>std::cerr\<close> only and is left out.
\<close>

datatype ('i, 'h) port_call = Port_async_write 'i buffer 'h

definition async_write ::
  "(buffer \<Rightarrow> ipv4_address option) \<Rightarrow> (buffer \<Rightarrow> ipv6_address option) \<Rightarrow>
   ('n \<Rightarrow> ip_address \<Rightarrow> bool) \<Rightarrow> ('n \<Rightarrow> 'n \<Rightarrow> bool) \<Rightarrow> ('i, 'g, 'n) router \<Rightarrow> 'i \<Rightarrow> buffer \<Rightarrow> 'h \<Rightarrow>
     (error + ('i, 'h) port_call list) \<times> ('i, 'g, 'n) router" where
  "async_write parse4 parse6 has_address key_comp r index data handler =
     (let (port_entry, r') = get_target_for parse4 parse6 has_address key_comp r index data in
      (case port_entry of
         Inl e \<Rightarrow> Inl e
       | Inr None \<Rightarrow> Inr []
       | Inr (Some entry) \<Rightarrow> Inr [Port_async_write (fst entry) data handler],
       r'))"

text \<open>
  Modelled from the spec: the port contract (the port's write function is supplied by
  the owner of the port and is not among the sources). A port's
  \<open>async_write(buffer, handler)\<close> invokes the handler exactly once, so the invocations
  of a handler are the port calls that carry it.
\<close>

definition handler_invocations :: "'h \<Rightarrow> ('i, 'h) port_call list \<Rightarrow> nat" where
  "handler_invocations handler calls =
     length (filter (\<lambda>c. case c of Port_async_write _ _ h \<Rightarrow> h = handler) calls)"

subsection \<open>Collaborators of the router\<close>

text \<open>
  Modelled from the spec: the two frame parsers, the network prefixes with their
  containment test and their ordering (asiotap and router.hpp, not among the sources).
  The definitions of the router above take them as the parameters \<open>parse4\<close>, \<open>parse6\<close>,
  \<open>has_address\<close> and \<open>key_comp\<close>; the ones here are what the parameters are instantiated
  with on concrete frames.

  A parser returns \<open>None\<close> on a bad version nibble, a truncated header or an invalid
  header length; the destination field is at offset 16 of an IPv4 header (RFC 791) and
  at offset 24 of an IPv6 header (RFC 8200).
\<close>

definition ipv4_try_parse :: "buffer \<Rightarrow> ipv4_address option" where
  "ipv4_try_parse data =
     (if length data < 20 then None
      else if drop_bit 4 (data ! 0) \<noteq> 4 then None
      else if unat (data ! 0 AND 15) < 5 \<or> length data < 4 * unat (data ! 0 AND 15) then None
      else Some (word_rcat (take 4 (drop 16 data))))"

definition ipv6_try_parse :: "buffer \<Rightarrow> ipv6_address option" where
  "ipv6_try_parse data =
     (if length data < 40 then None
      else if drop_bit 4 (data ! 0) \<noteq> 6 then None
      else Some (word_rcat (take 16 (drop 24 data))))"

text \<open>
  A network prefix is an address with a prefix length. Containment masks both operands
  with \<open>~0 << (width - prefix_len)\<close> and compares; a prefix of one family contains no
  address of the other.
\<close>

datatype ip_network_address = Net4 ipv4_address nat | Net6 ipv6_address nat

definition prefix_mask :: "nat \<Rightarrow> 'a::len word" where
  "prefix_mask prefix_len = push_bit (LENGTH('a) - prefix_len) (- 1)"

fun network_contains :: "ip_network_address \<Rightarrow> ip_address \<Rightarrow> bool" where
  "network_contains (Net4 net prefix_len) (V4 addr) = (addr AND prefix_mask prefix_len = net AND prefix_mask prefix_len)"
| "network_contains (Net6 net prefix_len) (V6 addr) = (addr AND prefix_mask prefix_len = net AND prefix_mask prefix_len)"
| "network_contains (Net4 net prefix_len) (V6 addr) = False"
| "network_contains (Net6 net prefix_len) (V4 addr) = False"

text \<open>The ordering of prefixes: by family, numeric address, descending prefix length.\<close>

fun network_less :: "ip_network_address \<Rightarrow> ip_network_address \<Rightarrow> bool" where
  "network_less (Net4 a m) (Net4 b n) = (a < b \<or> (a = b \<and> n < m))"
| "network_less (Net6 a m) (Net6 b n) = (a < b \<or> (a = b \<and> n < m))"
| "network_less (Net4 a m) (Net6 b n) = True"
| "network_less (Net6 a m) (Net4 b n) = False"

section \<open>The POSIX tap adapter (src/posix/posix\_tap\_adapter.cpp)\<close>

datatype tap_adapter_layer = ethernet | ip

text \<open>
  The body of the loop of \<open>enumerate\<close> for one interface name. The \<open>ethernet\<close> case of the
  switch has no \<open>break\<close>: control falls through to the \<open>ip\<close> case.
\<close>

definition enumerate_tap_step :: "tap_adapter_layer \<Rightarrow> (string \<rightharpoonup> string) \<Rightarrow> string \<Rightarrow> (string \<rightharpoonup> string)" where
  "enumerate_tap_step layer result name =
     (case layer of
        ethernet \<Rightarrow>
          (let result1 = (if take 3 name = ''tap'' then result(name \<mapsto> name) else result)
           in if take 3 name = ''tun'' then result1(name \<mapsto> name) else result1)
      | ip \<Rightarrow> (if take 3 name = ''tun'' then result(name \<mapsto> name) else result))"

text \<open>
  \<open>getifaddrs\<close> yields the list of the interface entries, here the list of their names,
  or fails (\<open>None\<close> for the return value -1); on failure the result stays empty.
\<close>

definition enumerate_tap :: "tap_adapter_layer \<Rightarrow> string list option \<Rightarrow> (string \<rightharpoonup> string)" where
  "enumerate_tap layer addrs =
     (case addrs of
        None \<Rightarrow> Map.empty
      | Some names \<Rightarrow> foldl (enumerate_tap_step layer) Map.empty names)"

section \<open>Certificates (include/cryptoplus/x509/certificate.hpp)\<close>

text \<open>
  Modelled from the spec: \<open>pointer_wrapper<X509>\<close> (pointer_wrapper.hpp, not among the
  sources), an object that aliases an underlying native handle. A certificate is the raw
  \<open>X509*\<close> that \<open>raw()\<close> and \<open>ptr().get()\<close> return, with 0 for \<open>NULL\<close>, and the deleter
  it was built with. The native objects live in an explicit store, the list of the
  allocated addresses with their contents \<open>'x\<close>.
\<close>

datatype deleter_type = deleter | null_deleter

record certificate =
  raw :: nat
  del :: deleter_type

type_synonym 'x x509_store = "(nat \<times> 'x) list"

datatype pointer_error = Invalid_pointer_read

text \<open>
  \<open>X509_dup\<close> of OpenSSL: \<open>NULL\<close> for \<open>NULL\<close>; otherwise it reads the object and returns
  a newly allocated copy, at an address that no allocated object has, or \<open>NULL\<close> when
  the allocation fails (\<open>alloc_ok\<close> is false). Reading an address that is not allocated
  is undefined behaviour, an error value here.
\<close>

definition fresh_address :: "'x x509_store \<Rightarrow> nat" where
  "fresh_address store = Suc (foldr max (map fst store) 0)"

definition X509_dup :: "bool \<Rightarrow> 'x x509_store \<Rightarrow> nat \<Rightarrow> pointer_error + nat \<times> 'x x509_store" where
  "X509_dup alloc_ok store p =
     (if p = 0 then Inr (0, store)
      else case map_of store p of
             None \<Rightarrow> Inl Invalid_pointer_read
           | Some x \<Rightarrow>
               if alloc_ok then Inr (fresh_address store, (fresh_address store, x) # store)
               else Inr (0, store))"

text \<open>\<open>certificate(X509* x509)\<close>: the constructor that does not take ownership.\<close>

definition certificate_of_pointer :: "nat \<Rightarrow> certificate" where
  "certificate_of_pointer p = \<lparr>raw = p, del = null_deleter\<rparr>"

definition clone :: "bool \<Rightarrow> 'x x509_store \<Rightarrow> certificate \<Rightarrow> pointer_error + certificate \<times> 'x x509_store" where
  "clone alloc_ok store c =
     (case X509_dup alloc_ok store (raw c) of
        Inl e \<Rightarrow> Inl e
      | Inr (p, store') \<Rightarrow> Inr (certificate_of_pointer p, store'))"

text \<open>\<open>operator==\<close> and \<open>operator!=\<close> on certificates.\<close>

definition operator_eq :: "certificate \<Rightarrow> certificate \<Rightarrow> bool" where
  "operator_eq lhs rhs = (raw lhs = raw rhs)"

definition operator_neq :: "certificate \<Rightarrow> certificate \<Rightarrow> bool" where
  "operator_neq lhs rhs = (raw lhs \<noteq> raw rhs)"

section \<open>Notions of the specification\<close>

text \<open>
  These definitions follow the words of the specification, not the code; the theorems
  below compare the code with them.
\<close>

text \<open>
  The policy gate: accept if \<open>client_routing_enabled\<close> is true, else accept only if the
  group of the source port differs from the group of the candidate port.
\<close>

definition policy_gate :: "bool \<Rightarrow> ('g, 'n) port_type \<Rightarrow> ('g, 'n) port_type \<Rightarrow> bool" where
  "policy_gate enabled source_port candidate_port =
     (enabled \<or> port_group source_port \<noteq> port_group candidate_port)"

text \<open>The destination a frame parses to: the IPv4 parser first, then the IPv6 parser.\<close>

definition parse_destination ::
  "(buffer \<Rightarrow> ipv4_address option) \<Rightarrow> (buffer \<Rightarrow> ipv6_address option) \<Rightarrow> buffer \<Rightarrow> ip_address option" where
  "parse_destination parse4 parse6 data =
     (case parse4 data of
        Some a \<Rightarrow> Some (V4 a)
      | None \<Rightarrow> (case parse6 data of Some a \<Rightarrow> Some (V6 a) | None \<Rightarrow> None))"

text \<open>
  The first entry of the table, in iteration order, whose prefix contains the
  destination and whose owning port passes the policy gate. An entry whose index the
  registry does not hold has no group to compare: it passes exactly when
  \<open>client_routing_enabled\<close> is true.
\<close>

definition first_passing_route ::
  "('n \<Rightarrow> 'a \<Rightarrow> bool) \<Rightarrow> ('i \<times> ('g, 'n) port_type) list \<Rightarrow> bool \<Rightarrow> ('g, 'n) port_type \<Rightarrow> 'a \<Rightarrow>
     ('n \<times> 'i) list \<Rightarrow> ('n \<times> 'i) option" where
  "first_passing_route contains ports enabled source_port dest table =
     find (\<lambda>route_port. contains (fst route_port) dest \<and>
             (case ports_find ports (snd route_port) of
                None \<Rightarrow> enabled
              | Some candidate \<Rightarrow> policy_gate enabled source_port (snd candidate)))
       table"

text \<open>
  Invariant I1 of the route table: every entry references an index present in the
  registry; and I1 for the cache of a router, where an absent cache has no entry.
\<close>

definition routes_owned :: "('i \<times> 'p) list \<Rightarrow> ('n \<times> 'i) list \<Rightarrow> bool" where
  "routes_owned ports table = list_all (\<lambda>route_port. ports_find ports (snd route_port) \<noteq> None) table"

definition cache_owned :: "('i, 'g, 'n) router \<Rightarrow> bool" where
  "cache_owned r = (case m_routes r of None \<Rightarrow> True | Some table \<Rightarrow> routes_owned (m_ports r) table)"

text \<open>
  Modelled from the spec: the states of a router (\<open>register_port\<close>, \<open>deregister_port\<close>
  and \<open>set_configuration\<close> are in router.hpp, not among the sources). A router starts
  with an absent cache; every change of the registry or of a port's local routes
  invalidates the cache; a swap of the configuration does not; \<open>routes()\<close> and the
  selector are the code above.
\<close>

inductive reachable :: "('i, 'g, 'n) router \<Rightarrow> bool" where
  cache_absent: "m_routes r = None \<Longrightarrow> reachable r"
| registry_changed: "reachable r \<Longrightarrow> reachable (r\<lparr>m_ports := ports, m_routes := None\<rparr>)"
| configuration_set: "reachable r \<Longrightarrow> reachable (r\<lparr>m_configuration := c\<rparr>)"
| routes_called: "reachable r \<Longrightarrow> reachable (snd (routes key_comp r))"
| selector_called:
    "reachable r \<Longrightarrow> reachable (snd (get_target_for parse4 parse6 has_address key_comp r index data))"

text \<open>The local routes of all registered ports, flattened, each tagged with its owner.\<close>

definition flattened_routes :: "('i \<times> ('g, 'n) port_type) list \<Rightarrow> ('n \<times> 'i) list" where
  "flattened_routes ports =
     concat (map (\<lambda>port. map (\<lambda>route. (route, fst port)) (local_routes (snd port))) ports)"

text \<open>"The name begins with": the string is a prefix of the name.\<close>

definition begins_with :: "string \<Rightarrow> string \<Rightarrow> bool" where
  "begins_with name start = prefix start name"

section \<open>Concrete routers and frames\<close>

text \<open>
  The ports and frames of the scenarios of the specification, with natural numbers as
  port indices and groups, and the collaborators above as prefixes and parsers.
\<close>

definition ipv4_frame_to :: "8 word \<Rightarrow> 8 word \<Rightarrow> 8 word \<Rightarrow> 8 word \<Rightarrow> buffer" where
  "ipv4_frame_to a b c d =
     [0x45, 0, 0, 20, 0, 0, 0, 0, 64, 17, 0, 0, 192, 168, 0, 1, a, b, c, d]"

definition ipv6_frame_to :: "buffer \<Rightarrow> buffer" where
  "ipv6_frame_to dst = [0x60, 0, 0, 0, 0, 0, 59, 64] @ replicate 16 0 @ dst"

definition make_port :: "nat \<Rightarrow> ip_network_address list \<Rightarrow> (nat, ip_network_address) port_type" where
  "make_port g rs = \<lparr>port_group = g, local_routes = rs\<rparr>"

definition make_router ::
  "(nat \<times> (nat, ip_network_address) port_type) list \<Rightarrow> (ip_network_address \<times> nat) list option \<Rightarrow> bool \<Rightarrow>
     (nat, nat, ip_network_address) router" where
  "make_router ports cache enabled =
     \<lparr>m_ports = ports, m_routes = cache,
      m_configuration = \<lparr>client_routing_enabled = enabled\<rparr>,
      m_ipv4_filter = \<lparr>last_helper = None\<rparr>,
      m_ipv6_filter = \<lparr>last_helper = None\<rparr>\<rparr>"

text \<open>10.0.0.0/24, 10.0.1.0/24 and 2001:db8:1::/48.\<close>

definition net_10_0_0 :: ip_network_address where
  "net_10_0_0 = Net4 0x0A000000 24"

definition net_10_0_1 :: ip_network_address where
  "net_10_0_1 = Net4 0x0A000100 24"

definition net_2001_db8_1 :: ip_network_address where
  "net_2001_db8_1 = Net6 0x20010DB8000100000000000000000000 48"

text \<open>The bytes of the address 2001:db8:1::1.\<close>

definition addr_2001_db8_1_1 :: buffer where
  "addr_2001_db8_1_1 = [0x20, 0x01, 0x0D, 0xB8, 0, 1, 0, 0, 0, 0, 0, 0, 0, 0, 0, 1]"

text \<open>Scenarios 1 to 3: port 1 and port 2, in two groups or in one.\<close>

definition two_groups :: "(nat \<times> (nat, ip_network_address) port_type) list" where
  "two_groups = [(1, make_port 1 [net_10_0_0]), (2, make_port 2 [net_10_0_1])]"

definition one_group :: "(nat \<times> (nat, ip_network_address) port_type) list" where
  "one_group = [(1, make_port 1 [net_10_0_0]), (2, make_port 1 [net_10_0_1])]"

text \<open>Scenario 5: port 1 owns 10.0.0.0/24 and port 2, of another group, 2001:db8:1::/48.\<close>

definition two_families :: "(nat \<times> (nat, ip_network_address) port_type) list" where
  "two_families = [(1, make_port 1 [net_10_0_0]), (2, make_port 2 [net_2001_db8_1])]"

text \<open>
  A registry from which port 2 is gone, with a cache that still holds its route: ports
  1 and 3 are registered, and both 2 and 3 own 10.0.1.0/24 in the cached table.
\<close>

definition ports_1_3 :: "(nat \<times> (nat, ip_network_address) port_type) list" where
  "ports_1_3 = [(1, make_port 1 [net_10_0_0]), (3, make_port 3 [net_10_0_1])]"

definition stale_table :: "(ip_network_address \<times> nat) list" where
  "stale_table = [(net_10_0_0, 1), (net_10_0_1, 2), (net_10_0_1, 3)]"

section \<open>Auxiliary facts\<close>

subsection \<open>The registry\<close>

lemma ports_find_fst: "ports_find ports index = Some entry \<Longrightarrow> fst entry = index"
  by (auto simp: ports_find_def find_Some_iff)

lemma ports_find_None: "ports_find ports index = None \<longleftrightarrow> index \<notin> fst ` set ports"
  by (force simp: ports_find_def find_None_iff)

subsection \<open>The route table\<close>

lemma mset_multimap_insert: "mset (multimap_insert key_comp kv t) = add_mset kv (mset t)"
  by (induction t) auto

lemma mset_insert_routes_aux:
  "mset (foldl (\<lambda>t route. multimap_insert key_comp (route, i) t) table rs) =
     mset table + mset (map (\<lambda>route. (route, i)) rs)"
  by (induction rs arbitrary: table) (auto simp: mset_multimap_insert)

lemma mset_insert_local_routes:
  "mset (insert_local_routes key_comp table port) =
     mset table + mset (map (\<lambda>route. (route, fst port)) (local_routes (snd port)))"
  by (simp add: insert_local_routes_def mset_insert_routes_aux)

lemma mset_foldl_insert_local_routes:
  "mset (foldl (insert_local_routes key_comp) table ports) = mset table + mset (flattened_routes ports)"
  by (induction ports arbitrary: table) (auto simp: mset_insert_local_routes flattened_routes_def)

lemma mset_compile_routes: "mset (compile_routes key_comp ports) = mset (flattened_routes ports)"
  by (simp add: compile_routes_def mset_foldl_insert_local_routes)

lemma set_flattened_routes:
  "set (flattened_routes ports) =
     (\<Union>port \<in> set ports. (\<lambda>route. (route, fst port)) ` set (local_routes (snd port)))"
  by (auto simp: flattened_routes_def)

lemma set_compile_routes: "set (compile_routes key_comp ports) = set (flattened_routes ports)"
  using mset_compile_routes [of key_comp ports] by (metis set_mset_mset)

lemma routes_owned_compile_routes: "routes_owned ports (compile_routes key_comp ports)"
  by (auto simp: routes_owned_def list_all_iff set_compile_routes set_flattened_routes ports_find_None)

lemma routes_owned_routes: "cache_owned r \<Longrightarrow> routes_owned (m_ports r) (fst (routes key_comp r))"
  by (auto simp: cache_owned_def routes_def Let_def routes_owned_compile_routes split: option.splits)

subsection \<open>The loop of the selector\<close>

lemma loop_enabled:
  "get_target_for_loop has_address ports True source dest_addr table =
     (case find (\<lambda>route_port. has_address (fst route_port) dest_addr) table of
        None \<Rightarrow> Inr None
      | Some route_port \<Rightarrow> Inr (ports_find ports (snd route_port)))"
  by (induction table) (auto simp: Let_def)

lemma loop_monotone:
  "get_target_for_loop has_address ports False source dest_addr table = Inr (Some entry) \<Longrightarrow>
   \<exists>entry'. get_target_for_loop has_address ports True source dest_addr table = Inr (Some entry')"
  by (induction table) (auto simp: Let_def split: if_splits option.splits)

lemma loop_owned:
  "routes_owned ports table \<Longrightarrow>
   get_target_for_loop has_address ports enabled source dest_addr table =
     Inr (case first_passing_route has_address ports enabled source dest_addr table of
            None \<Rightarrow> None
          | Some route_port \<Rightarrow> ports_find ports (snd route_port))"
  by (induction table)
    (auto simp: Let_def routes_owned_def first_passing_route_def policy_gate_def split: option.splits)

lemma loop_defined:
  "routes_owned ports table \<or> enabled \<Longrightarrow>
   \<exists>port_entry. get_target_for_loop has_address ports enabled source dest_addr table = Inr port_entry"
  by (induction table) (auto simp: Let_def routes_owned_def split: option.splits)

lemma loop_no_self:
  "get_target_for_loop has_address ports False (snd source_entry) dest_addr table = Inr (Some entry) \<Longrightarrow>
   ports_find ports index = Some source_entry \<Longrightarrow> fst entry \<noteq> index"
proof (induction table)
  case Nil
  then show ?case by simp
next
  case (Cons route_port rest)
  show ?case
  proof (cases "has_address (fst route_port) dest_addr")
    case False
    with Cons show ?thesis by simp
  next
    case True
    show ?thesis
    proof (cases "ports_find ports (snd route_port)")
      case None
      with True Cons.prems show ?thesis by simp
    next
      case (Some candidate)
      show ?thesis
      proof (cases "port_group (snd source_entry) \<noteq> port_group (snd candidate)")
        case False
        with True Some Cons show ?thesis by simp
      next
        case differ: True
        with True Some Cons.prems have "entry = candidate" by simp
        moreover have "fst candidate = snd route_port" using Some by (rule ports_find_fst)
        ultimately show ?thesis using differ Some Cons.prems(2) by auto
      qed
    qed
  qed
qed

subsection \<open>The selector\<close>

lemma fst_get_target_for_address:
  "fst (get_target_for_address has_address key_comp r index dest_addr) =
     (case ports_find (m_ports r) index of
        None \<Rightarrow> Inr None
      | Some source_port_entry \<Rightarrow>
          get_target_for_loop has_address (m_ports r) (client_routing_enabled (m_configuration r))
            (snd source_port_entry) dest_addr (fst (routes key_comp r)))"
  by (simp add: get_target_for_address_def split_beta split: option.splits)

lemma fst_routes_filters:
  "fst (routes key_comp (r\<lparr>m_ipv4_filter := f4\<rparr>)) = fst (routes key_comp r)"
  "fst (routes key_comp (r\<lparr>m_ipv6_filter := f6\<rparr>)) = fst (routes key_comp r)"
  by (simp_all add: routes_def Let_def split: option.splits)

lemma fst_get_target_for:
  "fst (get_target_for parse4 parse6 has_address key_comp r index data) =
     (case parse_destination parse4 parse6 data of
        None \<Rightarrow> Inr None
      | Some dest_addr \<Rightarrow> fst (get_target_for_address has_address key_comp r index dest_addr))"
  by (simp add: get_target_for_def parse_destination_def filter_parse_def clear_last_helper_def
      fst_get_target_for_address fst_routes_filters Let_def split: option.splits)

lemma fst_routes_configuration:
  "fst (routes key_comp (r\<lparr>m_configuration := c\<rparr>)) = fst (routes key_comp r)"
  by (simp add: routes_def Let_def split: option.splits)


subsection \<open>Invariant I1 of the cache\<close>

text \<open>
  An invalidated cache satisfies I1 whatever the registry has become, and \<open>routes()\<close> and
  the selector keep I1: the states that the code leaves behind satisfy it as long as
  every change of the registry invalidates the cache.
\<close>

lemma cache_owned_invalidated: "cache_owned (r\<lparr>m_ports := ports, m_routes := None\<rparr>)"
  by (simp add: cache_owned_def)

lemma snd_routes:
  "m_ports (snd (routes key_comp r)) = m_ports r"
  "m_routes (snd (routes key_comp r)) = Some (fst (routes key_comp r))"
  by (simp_all add: routes_def Let_def split: option.splits)

lemma cache_owned_routes: "cache_owned r \<Longrightarrow> cache_owned (snd (routes key_comp r))"
  using routes_owned_routes [of r key_comp] by (simp add: cache_owned_def snd_routes)

lemma cache_owned_filters:
  "cache_owned (r\<lparr>m_ipv4_filter := f4\<rparr>) = cache_owned r"
  "cache_owned (r\<lparr>m_ipv6_filter := f6\<rparr>) = cache_owned r"
  by (simp_all add: cache_owned_def split: option.splits)

lemma cache_owned_get_target_for_address:
  "cache_owned r \<Longrightarrow> cache_owned (snd (get_target_for_address has_address key_comp r index dest_addr))"
  by (auto simp: get_target_for_address_def split_beta cache_owned_routes split: option.splits)

lemma cache_owned_get_target_for:
  "cache_owned r \<Longrightarrow> cache_owned (snd (get_target_for parse4 parse6 has_address key_comp r index data))"
  by (simp add: get_target_for_def Let_def cache_owned_get_target_for_address cache_owned_filters
      split: option.splits)

lemma cache_owned_configuration: "cache_owned (r\<lparr>m_configuration := c\<rparr>) = cache_owned r"
  by (simp add: cache_owned_def split: option.splits)

lemma reachable_cache_owned: "reachable r \<Longrightarrow> cache_owned r"
proof (induction rule: reachable.induct)
  case (cache_absent r)
  then show ?case by (simp add: cache_owned_def)
next
  case (registry_changed r ports)
  show ?case by (rule cache_owned_invalidated)
next
  case (configuration_set r c)
  then show ?case by (simp add: cache_owned_configuration)
next
  case (routes_called r key_comp)
  from routes_called.IH show ?case by (rule cache_owned_routes)
next
  case (selector_called r parse4 parse6 has_address key_comp index data)
  from selector_called.IH show ?case by (rule cache_owned_get_target_for)
qed

lemma fst_get_target_for_owned:
  assumes "parse_destination parse4 parse6 data = Some dest"
    and "ports_find (m_ports r) index = Some source_entry"
    and "cache_owned r"
  shows "fst (get_target_for parse4 parse6 has_address key_comp r index data) =
     Inr (case first_passing_route has_address (m_ports r)
                 (client_routing_enabled (m_configuration r)) (snd source_entry) dest
                 (fst (routes key_comp r)) of
            None \<Rightarrow> None
          | Some route_port \<Rightarrow> ports_find (m_ports r) (snd route_port))"
proof -
  have "routes_owned (m_ports r) (fst (routes key_comp r))"
    using assms(3) by (rule routes_owned_routes)
  then show ?thesis
    using assms(1,2) by (simp add: fst_get_target_for fst_get_target_for_address loop_owned)
qed

section \<open>The selector\<close>

text \<open>
  C1. For every call of the selector, in any state of the router, where the frame
  parses to a destination address and the source port index is present in the
  registry, the selector returns the port of the first entry of the route table, in
  iteration order, whose prefix contains the destination and whose owning port passes
  the policy gate, and "no route" if no entry passes. A candidate passes the gate if
  and only if \<open>client_routing_enabled\<close> is true or the group of the source port differs
  from the group of the candidate port.
\<close>

theorem selector_first_passing_route:
  assumes "reachable r"
    and "parse_destination parse4 parse6 data = Some dest"
    and "ports_find (m_ports r) index = Some source_entry"
  shows "fst (get_target_for parse4 parse6 has_address key_comp r index data) =
     Inr (case first_passing_route has_address (m_ports r)
                 (client_routing_enabled (m_configuration r)) (snd source_entry) dest
                 (fst (routes key_comp r)) of
            None \<Rightarrow> None
          | Some route_port \<Rightarrow> ports_find (m_ports r) (snd route_port))"
proof -
  from assms(1) have "cache_owned r" by (rule reachable_cache_owned)
  with assms(2,3) show ?thesis by (rule fst_get_target_for_owned)
qed

theorem selector_first_passing_route_witness:
  "reachable (snd (routes network_less (make_router two_groups None False)))
   \<and> parse_destination ipv4_try_parse ipv6_try_parse (ipv4_frame_to 10 0 1 5) = Some (V4 0x0A000105)
   \<and> ports_find (m_ports (snd (routes network_less (make_router two_groups None False)))) 1 =
       Some (1, make_port 1 [net_10_0_0])
   \<and> fst (get_target_for ipv4_try_parse ipv6_try_parse network_contains network_less
            (snd (routes network_less (make_router two_groups None False))) 1 (ipv4_frame_to 10 0 1 5)) =
       Inr (Some (2, make_port 2 [net_10_0_1]))"
proof -
  let ?r = "snd (routes network_less (make_router two_groups None False))"
  have "m_routes (make_router two_groups None False) = None"
    by code_simp
  then have "reachable (make_router two_groups None False)"
    by (rule reachable.cache_absent)
  then have h1: "reachable ?r"
    by (rule reachable.routes_called)
  have h2: "parse_destination ipv4_try_parse ipv6_try_parse (ipv4_frame_to 10 0 1 5) = Some (V4 0x0A000105)"
    by code_simp
  have h3: "ports_find (m_ports ?r) 1 = Some (1, make_port 1 [net_10_0_0])"
    by code_simp
  have result: "(case first_passing_route network_contains (m_ports ?r)
                 (client_routing_enabled (m_configuration ?r))
                 (snd (1 :: nat, make_port 1 [net_10_0_0])) (V4 0x0A000105)
                 (fst (routes network_less ?r)) of
            None \<Rightarrow> None
          | Some route_port \<Rightarrow> ports_find (m_ports ?r) (snd route_port))
        = Some (2, make_port 2 [net_10_0_1])"
    by code_simp
  from selector_first_passing_route [OF h1 h2 h3, of network_contains network_less] result
  have "fst (get_target_for ipv4_try_parse ipv6_try_parse network_contains network_less
            ?r 1 (ipv4_frame_to 10 0 1 5)) = Inr (Some (2, make_port 2 [net_10_0_1]))"
    by simp
  with h1 h2 h3 show ?thesis by (intro conjI)
qed

text \<open>
  C2, as amended. When client routing is disabled, a frame that the selector resolves
  is never resolved to the port it came from: the policy gate rejects every candidate
  of the source port's group, and the source port is one.
\<close>

theorem selector_no_self_route_when_disabled:
  assumes "\<not> client_routing_enabled (m_configuration r)"
    and "fst (get_target_for parse4 parse6 has_address key_comp r index data) = Inr (Some entry)"
  shows "fst entry \<noteq> index"
proof -
  from assms(2) obtain dest source_entry where
    source: "ports_find (m_ports r) index = Some source_entry" and
    loop: "get_target_for_loop has_address (m_ports r) False (snd source_entry) dest
             (fst (routes key_comp r)) = Inr (Some entry)"
    using assms(1)
    by (auto simp: fst_get_target_for fst_get_target_for_address split: option.splits)
  from loop source show ?thesis by (rule loop_no_self)
qed

theorem selector_no_self_route_when_disabled_witness:
  "\<not> client_routing_enabled (m_configuration (make_router two_groups None False))
   \<and> fst (get_target_for ipv4_try_parse ipv6_try_parse network_contains network_less
            (make_router two_groups None False) 1 (ipv4_frame_to 10 0 1 5)) =
       Inr (Some (2, make_port 2 [net_10_0_1]))
   \<and> fst (2 :: nat, make_port 2 [net_10_0_1]) \<noteq> 1"
proof -
  have h1: "\<not> client_routing_enabled (m_configuration (make_router two_groups None False))"
    by code_simp
  have h2: "fst (get_target_for ipv4_try_parse ipv6_try_parse network_contains network_less
            (make_router two_groups None False) 1 (ipv4_frame_to 10 0 1 5)) =
       Inr (Some (2, make_port 2 [net_10_0_1]))"
    by code_simp
  from selector_no_self_route_when_disabled [OF h1 h2] h1 h2 show ?thesis by blast
qed

text \<open>
  C2 as stated fails with client routing enabled (scenario 7 of the specification with
  the flag set): the only port owns 10.0.0.0/24, sends a frame to 10.0.0.5, and the
  selector resolves the frame to the same port.
\<close>

theorem selector_no_self_route_counterexample:
  "fst (get_target_for ipv4_try_parse ipv6_try_parse network_contains network_less
         (make_router [(1, make_port 1 [net_10_0_0])] None True) 1 (ipv4_frame_to 10 0 0 5)) =
     Inr (Some (1, make_port 1 [net_10_0_0]))"
  by code_simp

text \<open>
  C3, as amended. When every entry of the cached route table is owned by a registered
  port (invariant I1; an absent cache is rebuilt from the registry and satisfies it),
  or when client routing is enabled, the selector never reads the group of a
  nonexistent port: it returns an iterator.
\<close>

theorem selector_reads_no_absent_port:
  assumes "cache_owned r \<or> client_routing_enabled (m_configuration r)"
  shows "\<exists>port_entry. fst (get_target_for parse4 parse6 has_address key_comp r index data) = Inr port_entry"
proof -
  have "routes_owned (m_ports r) (fst (routes key_comp r)) \<or> client_routing_enabled (m_configuration r)"
    using assms routes_owned_routes by blast
  then have "\<exists>port_entry. get_target_for_loop has_address (m_ports r)
      (client_routing_enabled (m_configuration r)) source dest (fst (routes key_comp r)) = Inr port_entry"
    for source :: "('b, 'c) port_type" and dest :: ip_address
    by (rule loop_defined)
  then show ?thesis
    by (simp add: fst_get_target_for fst_get_target_for_address split: option.splits)
qed

theorem selector_reads_no_absent_port_witness:
  "(cache_owned (make_router one_group None False)
      \<or> client_routing_enabled (m_configuration (make_router one_group None False)))
   \<and> fst (get_target_for ipv4_try_parse ipv6_try_parse network_contains network_less
            (make_router one_group None False) 1 (ipv4_frame_to 10 0 1 5)) = Inr None"
proof -
  have h: "cache_owned (make_router one_group None False)
      \<or> client_routing_enabled (m_configuration (make_router one_group None False))"
    by code_simp
  have "fst (get_target_for ipv4_try_parse ipv6_try_parse network_contains network_less
            (make_router one_group None False) 1 (ipv4_frame_to 10 0 1 5)) \<noteq> Inl End_iterator_dereferenced"
    using selector_reads_no_absent_port [OF h, of ipv4_try_parse ipv6_try_parse network_contains
        network_less 1 "ipv4_frame_to 10 0 1 5"]
    by auto
  moreover have "fst (get_target_for ipv4_try_parse ipv6_try_parse network_contains network_less
            (make_router one_group None False) 1 (ipv4_frame_to 10 0 1 5)) = Inr None"
    by code_simp
  ultimately show ?thesis using h by blast
qed

text \<open>
  C3 as stated fails where the cache holds a route of a port that is no longer
  registered and client routing is disabled: the candidate 2 is not skipped in favour
  of port 3, the selector reads through the end iterator.
\<close>

theorem selector_reads_absent_port_counterexample:
  "ports_find ports_1_3 2 = None
   \<and> fst (get_target_for ipv4_try_parse ipv6_try_parse network_contains network_less
            (make_router ports_1_3 (Some stale_table) False) 1 (ipv4_frame_to 10 0 1 5)) =
       Inl End_iterator_dereferenced"
  by code_simp


section \<open>async\_write\<close>

text \<open>
  C4. If the selector returns a port, \<open>async_write\<close> calls that port's \<open>async_write\<close>
  exactly once, with the same data and the same handler, so the handler is invoked
  once; if the selector returns "no route", \<open>async_write\<close> calls nothing and the handler
  is invoked zero times. The router is left as the selector leaves it.
\<close>

theorem async_write_forwards_once_or_drops:
  "(fst (get_target_for parse4 parse6 has_address key_comp r index data) = Inr (Some entry) \<longrightarrow>
      (\<exists>calls. fst (async_write parse4 parse6 has_address key_comp r index data handler) = Inr calls
         \<and> calls = [Port_async_write (fst entry) data handler]
         \<and> handler_invocations handler calls = 1))
   \<and> (fst (get_target_for parse4 parse6 has_address key_comp r index data) = Inr None \<longrightarrow>
      (\<exists>calls. fst (async_write parse4 parse6 has_address key_comp r index data handler) = Inr calls
         \<and> calls = [] \<and> handler_invocations handler calls = 0))
   \<and> snd (async_write parse4 parse6 has_address key_comp r index data handler) =
       snd (get_target_for parse4 parse6 has_address key_comp r index data)"
  by (simp add: async_write_def handler_invocations_def split_beta)

theorem async_write_forwards_once_or_drops_witness:
  "fst (get_target_for ipv4_try_parse ipv6_try_parse network_contains network_less
          (make_router two_groups None False) 1 (ipv4_frame_to 10 0 1 5)) =
     Inr (Some (2, make_port 2 [net_10_0_1]))
   \<and> fst (async_write ipv4_try_parse ipv6_try_parse network_contains network_less
            (make_router two_groups None False) 1 (ipv4_frame_to 10 0 1 5) (7 :: nat)) =
       Inr [Port_async_write 2 (ipv4_frame_to 10 0 1 5) 7]
   \<and> handler_invocations 7 [Port_async_write (2 :: nat) (ipv4_frame_to 10 0 1 5) (7 :: nat)] = 1
   \<and> fst (get_target_for ipv4_try_parse ipv6_try_parse network_contains network_less
          (make_router two_groups None False) 1 (ipv4_frame_to 192 168 5 5)) = Inr None
   \<and> fst (async_write ipv4_try_parse ipv6_try_parse network_contains network_less
            (make_router two_groups None False) 1 (ipv4_frame_to 192 168 5 5) (7 :: nat)) = Inr []"
proof -
  have h1: "fst (get_target_for ipv4_try_parse ipv6_try_parse network_contains network_less
          (make_router two_groups None False) 1 (ipv4_frame_to 10 0 1 5)) =
     Inr (Some (2, make_port 2 [net_10_0_1]))"
    by code_simp
  have h2: "fst (get_target_for ipv4_try_parse ipv6_try_parse network_contains network_less
          (make_router two_groups None False) 1 (ipv4_frame_to 192 168 5 5)) = Inr None"
    by code_simp
  from h1 h2
    async_write_forwards_once_or_drops [of ipv4_try_parse ipv6_try_parse network_contains network_less
      "make_router two_groups None False" 1 "ipv4_frame_to 10 0 1 5" "(2, make_port 2 [net_10_0_1])" "7 :: nat"]
    async_write_forwards_once_or_drops [of ipv4_try_parse ipv6_try_parse network_contains network_less
      "make_router two_groups None False" 1 "ipv4_frame_to 192 168 5 5" "(2, make_port 2 [net_10_0_1])" "7 :: nat"]
  show ?thesis by simp
qed

section \<open>Policy monotonicity\<close>

text \<open>
  C5. With the registry, the route cache, the source index and the frame fixed: if the
  selector returns a destination when \<open>client_routing_enabled\<close> is false, it returns a
  destination when \<open>client_routing_enabled\<close> is true.
\<close>

theorem policy_monotonicity:
  assumes "fst (get_target_for parse4 parse6 has_address key_comp
                  (r\<lparr>m_configuration := (m_configuration r)\<lparr>client_routing_enabled := False\<rparr>\<rparr>)
                  index data) = Inr (Some entry)"
  shows "\<exists>entry'. fst (get_target_for parse4 parse6 has_address key_comp
                  (r\<lparr>m_configuration := (m_configuration r)\<lparr>client_routing_enabled := True\<rparr>\<rparr>)
                  index data) = Inr (Some entry')"
proof -
  from assms obtain dest source_entry where
    dest: "parse_destination parse4 parse6 data = Some dest" and
    source: "ports_find (m_ports r) index = Some source_entry" and
    loop: "get_target_for_loop has_address (m_ports r) False (snd source_entry) dest
             (fst (routes key_comp r)) = Inr (Some entry)"
    by (auto simp: fst_get_target_for fst_get_target_for_address fst_routes_configuration
        split: option.splits)
  from loop_monotone [OF loop] obtain entry' where
    "get_target_for_loop has_address (m_ports r) True (snd source_entry) dest
       (fst (routes key_comp r)) = Inr (Some entry')" ..
  with dest source show ?thesis
    by (simp add: fst_get_target_for fst_get_target_for_address fst_routes_configuration)
qed

theorem policy_monotonicity_witness:
  "fst (get_target_for ipv4_try_parse ipv6_try_parse network_contains network_less
          ((make_router two_groups None False)
             \<lparr>m_configuration := (m_configuration (make_router two_groups None False))
                \<lparr>client_routing_enabled := False\<rparr>\<rparr>)
          1 (ipv4_frame_to 10 0 1 5)) = Inr (Some (2, make_port 2 [net_10_0_1]))
   \<and> (\<exists>entry'. fst (get_target_for ipv4_try_parse ipv6_try_parse network_contains network_less
          ((make_router two_groups None False)
             \<lparr>m_configuration := (m_configuration (make_router two_groups None False))
                \<lparr>client_routing_enabled := True\<rparr>\<rparr>)
          1 (ipv4_frame_to 10 0 1 5)) = Inr (Some entry'))"
proof -
  have h: "fst (get_target_for ipv4_try_parse ipv6_try_parse network_contains network_less
          ((make_router two_groups None False)
             \<lparr>m_configuration := (m_configuration (make_router two_groups None False))
                \<lparr>client_routing_enabled := False\<rparr>\<rparr>)
          1 (ipv4_frame_to 10 0 1 5)) = Inr (Some (2, make_port 2 [net_10_0_1]))"
    by code_simp
  from policy_monotonicity [OF h] h show ?thesis by blast
qed

section \<open>routes()\<close>

text \<open>
  C6. When the route cache is absent, \<open>routes()\<close> rebuilds it from the registry: the
  rebuilt table holds the local routes of all registered ports, each paired with the
  index of its port, and nothing else, and it becomes the cache. When the cache is
  present, \<open>routes()\<close> returns it and leaves the router unchanged.
\<close>

theorem routes_rebuilds_or_returns_cache:
  "(m_routes r = None \<longrightarrow>
      (\<exists>table. routes key_comp r = (table, r\<lparr>m_routes := Some table\<rparr>)
         \<and> mset table = mset (flattened_routes (m_ports r))
         \<and> set table = (\<Union>port \<in> set (m_ports r).
                          (\<lambda>route. (route, fst port)) ` set (local_routes (snd port)))))
   \<and> (\<forall>table. m_routes r = Some table \<longrightarrow> routes key_comp r = (table, r))"
  by (simp add: routes_def Let_def mset_compile_routes set_compile_routes set_flattened_routes)

theorem routes_rebuilds_or_returns_cache_witness:
  "m_routes (make_router two_groups None False) = None
   \<and> fst (routes network_less (make_router two_groups None False)) = [(net_10_0_0, 1), (net_10_0_1, 2)]
   \<and> mset (fst (routes network_less (make_router two_groups None False))) =
       mset (flattened_routes (m_ports (make_router two_groups None False)))
   \<and> m_routes (snd (routes network_less (make_router two_groups None False))) =
       Some (fst (routes network_less (make_router two_groups None False)))
   \<and> m_routes (make_router ports_1_3 (Some stale_table) False) = Some stale_table
   \<and> routes network_less (make_router ports_1_3 (Some stale_table) False) =
       (stale_table, make_router ports_1_3 (Some stale_table) False)"
proof -
  have h1: "m_routes (make_router two_groups None False) = None"
    by code_simp
  have h2: "m_routes (make_router ports_1_3 (Some stale_table) False) = Some stale_table"
    by code_simp
  have r1: "fst (routes network_less (make_router two_groups None False)) = [(net_10_0_0, 1), (net_10_0_1, 2)]"
    by code_simp
  from routes_rebuilds_or_returns_cache [of "make_router two_groups None False" network_less] h1
  obtain table where
    t: "routes network_less (make_router two_groups None False) =
          (table, (make_router two_groups None False)\<lparr>m_routes := Some table\<rparr>)"
      "mset table = mset (flattened_routes (m_ports (make_router two_groups None False)))"
    by blast
  from t have r3: "mset (fst (routes network_less (make_router two_groups None False))) =
       mset (flattened_routes (m_ports (make_router two_groups None False)))"
    and r4: "m_routes (snd (routes network_less (make_router two_groups None False))) =
       Some (fst (routes network_less (make_router two_groups None False)))"
    by simp_all
  from routes_rebuilds_or_returns_cache [of "make_router ports_1_3 (Some stale_table) False" network_less] h2
  have r2: "routes network_less (make_router ports_1_3 (Some stale_table) False) =
       (stale_table, make_router ports_1_3 (Some stale_table) False)"
    by blast
  from h1 r1 r3 r4 h2 r2 show ?thesis by (intro conjI)
qed

section \<open>Unknown source port\<close>

text \<open>
  C7. If the source port index is not in the registry, the selector returns "no route"
  for every frame, route table and policy flag, \<open>async_write\<close> calls no port, and the
  route cache is left as it was: \<open>routes()\<close> is not called.
\<close>

theorem unknown_source_no_route:
  assumes "index \<notin> fst ` set (m_ports r)"
  shows "fst (get_target_for parse4 parse6 has_address key_comp r index data) = Inr None
    \<and> m_routes (snd (get_target_for parse4 parse6 has_address key_comp r index data)) = m_routes r
    \<and> fst (async_write parse4 parse6 has_address key_comp r index data handler) = Inr []"
proof -
  from assms have absent: "ports_find (m_ports r) index = None"
    by (simp add: ports_find_None)
  then have address: "get_target_for_address has_address key_comp r' index dest = (Inr None, r')"
    if "m_ports r' = m_ports r" for r' :: "('a, 'b, 'c) router" and dest :: ip_address
    using that by (simp add: get_target_for_address_def)
  have "fst (get_target_for parse4 parse6 has_address key_comp r index data) = Inr None"
    using absent by (simp add: fst_get_target_for fst_get_target_for_address split: option.splits)
  moreover have "m_routes (snd (get_target_for parse4 parse6 has_address key_comp r index data)) = m_routes r"
    by (simp add: get_target_for_def Let_def address split: option.splits)
  ultimately show ?thesis
    by (simp add: async_write_def split_beta)
qed

theorem unknown_source_no_route_witness:
  "(5 :: nat) \<notin> fst ` set (m_ports (make_router two_groups None True))
   \<and> fst (get_target_for ipv4_try_parse ipv6_try_parse network_contains network_less
            (make_router two_groups None True) 5 (ipv4_frame_to 10 0 1 5)) = Inr None
   \<and> m_routes (snd (get_target_for ipv4_try_parse ipv6_try_parse network_contains network_less
            (make_router two_groups None True) 5 (ipv4_frame_to 10 0 1 5))) = None"
proof -
  have h: "(5 :: nat) \<notin> fst ` set (m_ports (make_router two_groups None True))"
    by code_simp
  have c: "m_routes (make_router two_groups None True) = None"
    by code_simp
  from unknown_source_no_route [OF h, of ipv4_try_parse ipv6_try_parse network_contains network_less
      "ipv4_frame_to 10 0 1 5" "0 :: nat"] h c
  show ?thesis by simp
qed

section \<open>Order of the parsers\<close>

text \<open>
  C8. The selector tries the IPv4 parser first. A frame that parses as IPv4 is resolved
  with its IPv4 destination, whatever the IPv6 parser is: it is not consulted and the
  IPv6 filter is left as it was. Only when the IPv4 parser yields nothing is the IPv6
  parser tried, and its destination used. When both yield nothing, as for the empty
  buffer, the selector returns "no route".
\<close>

theorem selector_parser_order:
  "(parse4 data = Some a \<longrightarrow>
      get_target_for parse4 parse6 has_address key_comp r index data =
        get_target_for_address has_address key_comp
          (r\<lparr>m_ipv4_filter := (m_ipv4_filter r)\<lparr>last_helper := None\<rparr>\<rparr>) index (V4 a))
   \<and> (parse4 data = None \<and> parse6 data = Some b \<longrightarrow>
      get_target_for parse4 parse6 has_address key_comp r index data =
        get_target_for_address has_address key_comp
          (r\<lparr>m_ipv4_filter := (m_ipv4_filter r)\<lparr>last_helper := None\<rparr>,
             m_ipv6_filter := (m_ipv6_filter r)\<lparr>last_helper := None\<rparr>\<rparr>) index (V6 b))
   \<and> (parse4 data = None \<and> parse6 data = None \<longrightarrow>
      fst (get_target_for parse4 parse6 has_address key_comp r index data) = Inr None)
   \<and> fst (get_target_for ipv4_try_parse ipv6_try_parse has_address key_comp r index []) = Inr None"
  by (simp add: get_target_for_def filter_parse_def clear_last_helper_def Let_def
      ipv4_try_parse_def ipv6_try_parse_def)


theorem selector_parser_order_witness:
  "ipv4_try_parse (ipv4_frame_to 10 0 1 5) = Some 0x0A000105
   \<and> get_target_for ipv4_try_parse (\<lambda>data. Some 1) network_contains network_less
         (make_router two_groups None False) 1 (ipv4_frame_to 10 0 1 5) =
       get_target_for_address network_contains network_less
         (make_router two_groups None False) 1 (V4 0x0A000105)
   \<and> ipv4_try_parse (ipv6_frame_to addr_2001_db8_1_1) = None
   \<and> ipv6_try_parse (ipv6_frame_to addr_2001_db8_1_1) = Some 0x20010DB8000100000000000000000001
   \<and> get_target_for ipv4_try_parse ipv6_try_parse network_contains network_less
         (make_router two_families None False) 1 (ipv6_frame_to addr_2001_db8_1_1) =
       get_target_for_address network_contains network_less
         (make_router two_families None False) 1 (V6 0x20010DB8000100000000000000000001)
   \<and> fst (get_target_for_address network_contains network_less
         (make_router two_families None False) 1 (V6 0x20010DB8000100000000000000000001)) =
       Inr (Some (2, make_port 2 [net_2001_db8_1]))
   \<and> ipv4_try_parse [0, 1, 2] = None \<and> ipv6_try_parse [0, 1, 2] = None
   \<and> fst (get_target_for ipv4_try_parse ipv6_try_parse network_contains network_less
         (make_router two_groups None False) 1 [0, 1, 2]) = Inr None"
proof -
  have same: "(make_router ports None False)
      \<lparr>m_ipv4_filter := (m_ipv4_filter (make_router ports None False))\<lparr>last_helper := None\<rparr>\<rparr>
      = make_router ports None False"
    "(make_router ports None False)
      \<lparr>m_ipv4_filter := (m_ipv4_filter (make_router ports None False))\<lparr>last_helper := None\<rparr>,
       m_ipv6_filter := (m_ipv6_filter (make_router ports None False))\<lparr>last_helper := None\<rparr>\<rparr>
      = make_router ports None False" for ports
    by (simp_all add: make_router_def)
  have h4: "ipv4_try_parse (ipv4_frame_to 10 0 1 5) = Some 0x0A000105"
    by code_simp
  have h6: "ipv4_try_parse (ipv6_frame_to addr_2001_db8_1_1) = None"
    "ipv6_try_parse (ipv6_frame_to addr_2001_db8_1_1) = Some 0x20010DB8000100000000000000000001"
    by code_simp+
  have h0: "ipv4_try_parse [0, 1, 2] = None" "ipv6_try_parse [0, 1, 2] = None"
    by code_simp+
  have v6: "fst (get_target_for_address network_contains network_less
         (make_router two_families None False) 1 (V6 0x20010DB8000100000000000000000001)) =
       Inr (Some (2, make_port 2 [net_2001_db8_1]))"
    by code_simp
  from h4 h6 h0 same v6
    selector_parser_order [of ipv4_try_parse "ipv4_frame_to 10 0 1 5" "0x0A000105" "\<lambda>data. Some 1"
      network_contains network_less "make_router two_groups None False" 1 0]
    selector_parser_order [of ipv4_try_parse "ipv6_frame_to addr_2001_db8_1_1" 0 ipv6_try_parse
      network_contains network_less "make_router two_families None False" 1
      "0x20010DB8000100000000000000000001"]
    selector_parser_order [of ipv4_try_parse "[0, 1, 2]" 0 ipv6_try_parse
      network_contains network_less "make_router two_groups None False" 1 0]
  show ?thesis by simp
qed

section \<open>Enumeration of the tap adapters\<close>

lemma prefix_iff_take: "prefix start name \<longleftrightarrow> take (length start) name = start"
proof
  assume "prefix start name"
  then show "take (length start) name = start" by (auto simp: prefix_def)
next
  assume "take (length start) name = start"
  then show "prefix start name" by (metis take_is_prefix)
qed

lemma begins_with_take: "begins_with name ''tap'' \<longleftrightarrow> take 3 name = ''tap''"
  "begins_with name ''tun'' \<longleftrightarrow> take 3 name = ''tun''"
  by (simp_all add: begins_with_def prefix_iff_take numeral_3_eq_3)

lemma foldl_enumerate_tap_step:
  "foldl (enumerate_tap_step layer) result names name =
     (if name \<in> set names \<and>
         ((layer = ethernet \<and> take 3 name = ''tap'') \<or> take 3 name = ''tun'')
      then Some name else result name)"
  by (induction names arbitrary: result)
    (auto simp: enumerate_tap_step_def Let_def split: tap_adapter_layer.splits)

text \<open>
  C9. With the ethernet layer, \<open>enumerate\<close> returns every interface whose name begins
  with "tap" and every interface whose name begins with "tun", since the ethernet case
  falls through to the ip case; with the ip layer it returns only the interfaces whose
  name begins with "tun". Every returned name is mapped to itself.
\<close>

theorem enumerate_tap_ethernet_falls_through:
  "dom (enumerate_tap ethernet (Some names)) =
     {name. name \<in> set names \<and> (begins_with name ''tap'' \<or> begins_with name ''tun'')}
   \<and> dom (enumerate_tap ip (Some names)) = {name. name \<in> set names \<and> begins_with name ''tun''}
   \<and> (\<forall>name \<in> dom (enumerate_tap layer (Some names)). enumerate_tap layer (Some names) name = Some name)
   \<and> enumerate_tap layer None = Map.empty"
  by (auto simp: enumerate_tap_def foldl_enumerate_tap_step begins_with_take dom_def split: if_splits)

theorem enumerate_tap_ethernet_falls_through_witness:
  "''tap0'' \<in> dom (enumerate_tap ethernet (Some [''lo'', ''tap0'', ''eth0'', ''tun3'']))
   \<and> ''tun3'' \<in> dom (enumerate_tap ethernet (Some [''lo'', ''tap0'', ''eth0'', ''tun3'']))
   \<and> ''eth0'' \<notin> dom (enumerate_tap ethernet (Some [''lo'', ''tap0'', ''eth0'', ''tun3'']))
   \<and> ''tun3'' \<in> dom (enumerate_tap ip (Some [''lo'', ''tap0'', ''eth0'', ''tun3'']))
   \<and> ''tap0'' \<notin> dom (enumerate_tap ip (Some [''lo'', ''tap0'', ''eth0'', ''tun3'']))"
proof -
  let ?names = "[''lo'', ''tap0'', ''eth0'', ''tun3'']"
  note inst = enumerate_tap_ethernet_falls_through [of ?names ethernet]
  have tap0: "''tap0'' \<in> set ?names \<and> (begins_with ''tap0'' ''tap'' \<or> begins_with ''tap0'' ''tun'')"
    by code_simp
  have tun3: "''tun3'' \<in> set ?names \<and> (begins_with ''tun3'' ''tap'' \<or> begins_with ''tun3'' ''tun'')"
    by code_simp
  have eth0: "\<not> (''eth0'' \<in> set ?names \<and> (begins_with ''eth0'' ''tap'' \<or> begins_with ''eth0'' ''tun''))"
    by code_simp
  have tun3_ip: "''tun3'' \<in> set ?names \<and> begins_with ''tun3'' ''tun''"
    by code_simp
  have tap0_ip: "\<not> (''tap0'' \<in> set ?names \<and> begins_with ''tap0'' ''tun'')"
    by code_simp
  note e = inst [THEN conjunct1]
  note i = inst [THEN conjunct2, THEN conjunct1]
  have f1: "''tap0'' \<in> dom (enumerate_tap ethernet (Some ?names))"
    unfolding e mem_Collect_eq by (rule tap0)
  have f2: "''tun3'' \<in> dom (enumerate_tap ethernet (Some ?names))"
    unfolding e mem_Collect_eq by (rule tun3)
  have f3: "''eth0'' \<notin> dom (enumerate_tap ethernet (Some ?names))"
    unfolding e mem_Collect_eq by (rule eth0)
  have f4: "''tun3'' \<in> dom (enumerate_tap ip (Some ?names))"
    unfolding i mem_Collect_eq by (rule tun3_ip)
  have f5: "''tap0'' \<notin> dom (enumerate_tap ip (Some ?names))"
    unfolding i mem_Collect_eq by (rule tap0_ip)
  from f1 f2 f3 f4 f5 show ?thesis by (intro conjI)
qed

section \<open>Certificates\<close>

lemma le_foldr_max: "k \<in> set ks \<Longrightarrow> k \<le> foldr max ks (0 :: nat)"
  by (induction ks) (auto simp: max_def)

lemma fresh_address_not_allocated: "map_of store (fresh_address store) = None"
proof -
  have "fresh_address store \<notin> fst ` set store"
  proof
    assume "fresh_address store \<in> fst ` set store"
    then have "fresh_address store \<in> set (map fst store)" by simp
    then have "fresh_address store \<le> foldr max (map fst store) 0" by (rule le_foldr_max)
    then show False by (simp add: fresh_address_def)
  qed
  then show ?thesis by (simp add: map_of_eq_None_iff)
qed

text \<open>
  C10. \<open>operator==\<close> on certificates is the identity of the raw pointers, not the
  equality of the contents: for every certificate that wraps an allocated object,
  \<open>clone()\<close> returns a certificate that compares unequal to it, also when the copy
  succeeded and holds the same contents.
\<close>

theorem clone_compares_unequal:
  "(\<forall>lhs rhs. operator_eq lhs rhs \<longleftrightarrow> raw lhs = raw rhs)
   \<and> (\<forall>c' store'. raw c \<noteq> 0 \<and> clone alloc_ok store c = Inr (c', store') \<longrightarrow>
         \<not> operator_eq c' c \<and> \<not> operator_eq c c' \<and> operator_neq c' c)
   \<and> (raw c \<noteq> 0 \<and> map_of store (raw c) = Some x \<longrightarrow>
         (\<exists>c' store'. clone alloc_ok store c = Inr (c', store')
            \<and> (alloc_ok \<longrightarrow> map_of store' (raw c') = Some x \<and> map_of store' (raw c) = Some x)))"
proof -
  have fresh: "raw c \<noteq> fresh_address store" if "map_of store (raw c) = Some y" for y
    using that fresh_address_not_allocated [of store] by auto
  have "operator_eq lhs rhs \<longleftrightarrow> raw lhs = raw rhs" for lhs rhs
    by (simp add: operator_eq_def)
  moreover have "\<not> operator_eq c' c \<and> \<not> operator_eq c c' \<and> operator_neq c' c"
    if "raw c \<noteq> 0 \<and> clone alloc_ok store c = Inr (c', store')" for c' and store' :: "'a x509_store"
    using that fresh
    by (auto simp: clone_def X509_dup_def certificate_of_pointer_def operator_eq_def operator_neq_def
        split: option.splits if_splits)
  moreover have "\<exists>c' store'. clone alloc_ok store c = Inr (c', store')
            \<and> (alloc_ok \<longrightarrow> map_of store' (raw c') = Some x \<and> map_of store' (raw c) = Some x)"
    if "raw c \<noteq> 0 \<and> map_of store (raw c) = Some x"
    using that fresh [of x]
    by (simp add: clone_def X509_dup_def certificate_of_pointer_def)
  ultimately show ?thesis by blast
qed

theorem clone_compares_unequal_witness:
  "raw \<lparr>raw = 1, del = deleter\<rparr> \<noteq> 0
   \<and> map_of [(1 :: nat, ''certificate'')] (raw \<lparr>raw = 1, del = deleter\<rparr>) = Some ''certificate''
   \<and> clone True [(1, ''certificate'')] \<lparr>raw = 1, del = deleter\<rparr> =
       Inr (\<lparr>raw = 2, del = null_deleter\<rparr>, [(2, ''certificate''), (1, ''certificate'')])
   \<and> \<not> operator_eq \<lparr>raw = 2, del = null_deleter\<rparr> \<lparr>raw = 1, del = deleter\<rparr>
   \<and> map_of [(2 :: nat, ''certificate''), (1, ''certificate'')] 2 =
       map_of [(2 :: nat, ''certificate''), (1, ''certificate'')] 1"
proof -
  have h1: "raw \<lparr>raw = 1, del = deleter\<rparr> \<noteq> 0"
    by simp
  have h2: "map_of [(1 :: nat, ''certificate'')] (raw \<lparr>raw = 1, del = deleter\<rparr>) = Some ''certificate''"
    by simp
  have c: "clone True [(1, ''certificate'')] \<lparr>raw = 1, del = deleter\<rparr> =
       Inr (\<lparr>raw = 2, del = null_deleter\<rparr>, [(2, ''certificate''), (1, ''certificate'')])"
    by (simp add: clone_def X509_dup_def certificate_of_pointer_def fresh_address_def)
  from clone_compares_unequal [of "\<lparr>raw = 1, del = deleter\<rparr>" True "[(1, ''certificate'')]" "''certificate''"]
    h1 c
  have u: "\<not> operator_eq \<lparr>raw = 2, del = null_deleter\<rparr> \<lparr>raw = 1, del = deleter\<rparr>"
    by blast
  have same: "map_of [(2 :: nat, ''certificate''), (1, ''certificate'')] 2 =
       map_of [(2 :: nat, ''certificate''), (1, ''certificate'')] 1"
    by simp
  from h1 h2 c u same show ?thesis by (intro conjI)
qed

end
